theory Spec2Isabelle
  imports Main "HOL-Library.Sublist"
begin

section \<open>Strings as the Go code and the SQL engine see them\<close>

text \<open>
  Go strings and SQL TEXT values are modelled as \<open>string\<close>, one \<open>char\<close> per character.
  Identifiers (\<open>int64\<close>) are \<open>int\<close>: no operation of the store does arithmetic on
  them that could overflow. A timestamp is an \<open>int\<close> as well, in the order in which the
  engine compares the stored \<open>received_at\<close> values. Failures of the disk or of the
  connection are not modelled: a statement fails only on a constraint of the schema or,
  for a full-text query, on the engine's rejection of the query text.
\<close>

definition ascii_lower :: "char \<Rightarrow> char" where
  "ascii_lower c =
     (let n = (of_char c :: nat) in if 65 \<le> n \<and> n \<le> 90 then char_of (n + 32) else c)"

definition to_lower :: "string \<Rightarrow> string" where
  "to_lower s = map ascii_lower s"

definition is_space :: "char \<Rightarrow> bool" where
  "is_space c = ((of_char c :: nat) \<in> {9, 10, 11, 12, 13, 32})"

text \<open>\<open>strings.TrimSpace\<close> on ASCII white space.\<close>

definition trim_space :: "string \<Rightarrow> string" where
  "trim_space s = rev (dropWhile is_space (rev (dropWhile is_space s)))"

text \<open>A Go map lookup on a \<open>map[string]string\<close>: a missing key (or a nil map) gives \<open>""\<close>.\<close>

definition lookup :: "(string \<times> string) list \<Rightarrow> string \<Rightarrow> string" where
  "lookup ps k = (case map_of ps k of Some v \<Rightarrow> v | None \<Rightarrow> [])"

subsection \<open>The JSON text of a string slice\<close>

text \<open>
  \<open>json.Marshal\<close> of a \<open>[]string\<close>: a nil slice is \<open>null\<close>, any other slice is a
  bracketed, comma-separated list of quoted strings. Inside a string the quote and the
  backslash are escaped, the control characters and \<open><\<close>, \<open>>\<close>, \<open>&\<close> are written as
  escapes; every other character is copied.
\<close>

datatype 'a slice = nil | Slice "'a list"

fun elems :: "'a slice \<Rightarrow> 'a list" where
  "elems nil = []"
| "elems (Slice xs) = xs"

definition len :: "'a slice \<Rightarrow> nat" where
  "len s = length (elems s)"

definition hex_digit :: "nat \<Rightarrow> char" where
  "hex_digit n = (if n < 10 then char_of (48 + n) else char_of (87 + n))"

definition json_escape_char :: "char \<Rightarrow> string" where
  "json_escape_char c =
     (let n = (of_char c :: nat) in
      if n = 34 then [CHR 0x5C, CHR 0x22]
      else if n = 92 then [CHR 0x5C, CHR 0x5C]
      else if n = 8 then [CHR 0x5C, CHR ''b'']
      else if n = 12 then [CHR 0x5C, CHR ''f'']
      else if n = 10 then [CHR 0x5C, CHR ''n'']
      else if n = 13 then [CHR 0x5C, CHR ''r'']
      else if n = 9 then [CHR 0x5C, CHR ''t'']
      else if n < 32 \<or> n = 60 \<or> n = 62 \<or> n = 38
        then [CHR 0x5C, CHR ''u'', CHR ''0'', CHR ''0'', hex_digit (n div 16), hex_digit (n mod 16)]
      else [c])"

definition json_string :: "string \<Rightarrow> string" where
  "json_string s = [CHR 0x22] @ concat (map json_escape_char s) @ [CHR 0x22]"

fun join_comma :: "string list \<Rightarrow> string" where
  "join_comma [] = []"
| "join_comma [x] = x"
| "join_comma (x # y # ys) = x @ '','' @ join_comma (y # ys)"

fun json_marshal :: "string slice \<Rightarrow> string" where
  "json_marshal nil = ''null''"
| "json_marshal (Slice xs) = ''['' @ join_comma (map json_string xs) @ '']''"

section \<open>The data model (\<open>internal/storage/models.go\<close>)\<close>

record AttachmentMeta =
  att_ID :: int
  Filename :: string
  ContentType :: string
  att_Size :: int

text \<open>\<open>Attachment\<close> embeds \<open>AttachmentMeta\<close> and adds the payload.\<close>

record Attachment = AttachmentMeta +
  Data :: string

record Email =
  ID :: int
  MessageID :: string
  From :: string
  To :: "string slice"
  CC :: "string slice"
  BCC :: "string slice"
  Subject :: string
  BodyPlain :: string
  BodyHTML :: string
  Headers :: "(string \<times> string list) list"
  Attachments :: "AttachmentMeta list"
  Size :: int
  ReceivedAt :: int
  Read :: bool


record EmailListResult =
  Emails :: "Email list"
  Total :: int

datatype storage_error = ErrNotFound | ErrInvalidID | ErrConstraint string | ErrSQL string

section \<open>The SQLite store\<close>

text \<open>
  A row of table \<open>attachments\<close>: the metadata, the payload and the owning message
  (\<open>email_id\<close>).
\<close>

record attachment_row =
  row_id :: int
  email_id :: int
  row_filename :: string
  row_content_type :: string
  row_size :: int
  row_data :: string

text \<open>
  The database as the connection sees it. \<open>emails\<close> are the rows of table \<open>emails\<close> in
  rowid order (a row is an \<open>Email\<close> whose \<open>Attachments\<close> field is not a column and stays
  empty; columns \<open>to_addresses\<close>, \<open>cc_addresses\<close>, \<open>bcc_addresses\<close> hold the JSON text of
  the slices). \<open>email_seq\<close> and \<open>att_seq\<close> are the AUTOINCREMENT counters.
  \<open>foreign_keys\<close> says whether the connection enforces foreign keys, and with them the
  \<open>ON DELETE CASCADE\<close> of the schema; \<open>hasFTS5\<close> is the search mode chosen by
  \<open>initSchema\<close>.
\<close>

record SQLiteStorage =
  emails :: "Email list"
  attachments :: "attachment_row list"
  email_seq :: int
  att_seq :: int
  foreign_keys :: bool
  hasFTS5 :: bool

text \<open>What a database file holds before it is opened.\<close>

record db_file =
  file_emails :: "Email list"
  file_attachments :: "attachment_row list"
  file_email_seq :: int
  file_att_seq :: int

text \<open>
  The connection string of \<open>NewSQLiteStorage\<close> is
  \<open>dbPath + "?_journal_mode=WAL&_busy_timeout=5000"\<close>. The driver turns foreign-key
  enforcement on only for a \<open>_foreign_keys\<close> (or \<open>_fk\<close>) parameter; SQLite's default is
  off.
\<close>

definition dsn_params :: "(string \<times> string) list" where
  "dsn_params = [(''_journal_mode'', ''WAL''), (''_busy_timeout'', ''5000'')]"

definition dsn_foreign_keys :: "(string \<times> string) list \<Rightarrow> bool" where
  "dsn_foreign_keys ps =
     (let v = (if lookup ps ''_foreign_keys'' \<noteq> [] then lookup ps ''_foreign_keys''
               else lookup ps ''_fk'')
      in v \<in> {''1'', ''yes'', ''true'', ''on''})"

text \<open>
  \<open>NewSQLiteStorage\<close> and \<open>initSchema\<close>: the tables are created if they do not exist
  (rows already in the file are kept), and \<open>hasFTS5\<close> records whether the engine
  accepted the FTS5 schema (\<open>fts5_available\<close>).
\<close>

definition NewSQLiteStorage :: "db_file \<Rightarrow> bool \<Rightarrow> SQLiteStorage" where
  "NewSQLiteStorage f fts5_available =
     \<lparr>emails = file_emails f, attachments = file_attachments f,
      email_seq = file_email_seq f, att_seq = file_att_seq f,
      foreign_keys = dsn_foreign_keys dsn_params, hasFTS5 = fts5_available\<rparr>"

definition empty_file :: db_file where
  "empty_file = \<lparr>file_emails = [], file_attachments = [], file_email_seq = 0, file_att_seq = 0\<rparr>"

subsection \<open>SaveEmail\<close>

text \<open>
  The loop of \<open>SaveEmail\<close> ranges over \<open>email.Attachments\<close>, a \<open>[]AttachmentMeta\<close>, and
  inserts a row only when \<open>interface{}(&att).(*Attachment)\<close> succeeds. The value boxed
  in the interface is a \<open>*AttachmentMeta\<close>; a Go type assertion compares the dynamic
  type with the asserted one.
\<close>

datatype go_dyn = Ptr_AttachmentMeta AttachmentMeta | Ptr_Attachment Attachment

fun assert_Attachment :: "go_dyn \<Rightarrow> Attachment option" where
  "assert_Attachment (Ptr_Attachment a) = Some a"
| "assert_Attachment (Ptr_AttachmentMeta m) = None"

definition insert_attachment :: "SQLiteStorage \<Rightarrow> int \<Rightarrow> AttachmentMeta \<Rightarrow> string \<Rightarrow> SQLiteStorage" where
  "insert_attachment s emailID att payload =
     s\<lparr>attachments := attachments s @
          [\<lparr>row_id = att_seq s + 1, email_id = emailID, row_filename = Filename att,
            row_content_type = ContentType att, row_size = att_Size att, row_data = payload\<rparr>],
       att_seq := att_seq s + 1\<rparr>"

fun insert_attachments :: "SQLiteStorage \<Rightarrow> int \<Rightarrow> AttachmentMeta list \<Rightarrow> SQLiteStorage" where
  "insert_attachments s emailID [] = s"
| "insert_attachments s emailID (att # rest) =
     (case assert_Attachment (Ptr_AttachmentMeta att) of
        Some attWithData \<Rightarrow>
          insert_attachments (insert_attachment s emailID att (Data attWithData)) emailID rest
      | None \<Rightarrow> insert_attachments s emailID rest)"

text \<open>
  The INSERT into \<open>emails\<close> fails on the \<open>UNIQUE\<close> constraint of column \<open>message_id\<close>
  (Go passes the string, never NULL); the deferred rollback then leaves the database as
  it was. Otherwise the row gets the next AUTOINCREMENT id.
\<close>

definition SaveEmail :: "SQLiteStorage \<Rightarrow> Email \<Rightarrow> (storage_error + int) \<times> SQLiteStorage" where
  "SaveEmail s email =
     (if MessageID email \<in> set (map MessageID (emails s))
      then (Inl (ErrConstraint ''UNIQUE constraint failed: emails.message_id''), s)
      else
        let emailID = email_seq s + 1;
            s1 = s\<lparr>emails := emails s @ [email\<lparr>ID := emailID, Attachments := []\<rparr>],
                   email_seq := emailID\<rparr>;
            s2 = insert_attachments s1 emailID (Attachments email)
        in (Inr emailID, s2))"

subsection \<open>GetEmail, GetAttachment\<close>

definition meta_of_row :: "attachment_row \<Rightarrow> AttachmentMeta" where
  "meta_of_row r =
     \<lparr>att_ID = row_id r, Filename = row_filename r, ContentType = row_content_type r,
      att_Size = row_size r\<rparr>"

definition GetEmail :: "SQLiteStorage \<Rightarrow> int \<Rightarrow> storage_error + Email" where
  "GetEmail s eid =
     (case find (\<lambda>e. ID e = eid) (emails s) of
        None \<Rightarrow> Inl ErrNotFound
      | Some email \<Rightarrow>
          Inr (email\<lparr>Attachments :=
                 map meta_of_row (filter (\<lambda>r. email_id r = eid) (attachments s))\<rparr>))"

definition GetAttachment :: "SQLiteStorage \<Rightarrow> int \<Rightarrow> storage_error + Attachment" where
  "GetAttachment s aid =
     (case find (\<lambda>r. row_id r = aid) (attachments s) of
        None \<Rightarrow> Inl ErrNotFound
      | Some r \<Rightarrow>
          Inr \<lparr>att_ID = row_id r, Filename = row_filename r, ContentType = row_content_type r,
               att_Size = row_size r, Data = row_data r\<rparr>)"

subsection \<open>Deleting rows\<close>

text \<open>
  \<open>DELETE FROM emails WHERE ...\<close>: the rows that satisfy the condition go, the
  statement reports how many. Rows of \<open>attachments\<close> that reference a deleted message
  are deleted with it only when the connection enforces foreign keys.
\<close>

definition sql_delete_emails :: "(Email \<Rightarrow> bool) \<Rightarrow> SQLiteStorage \<Rightarrow> int \<times> SQLiteStorage" where
  "sql_delete_emails cond s =
     (let gone = filter cond (emails s);
          kept = filter (\<lambda>e. \<not> cond e) (emails s);
          atts = (if foreign_keys s
                  then filter (\<lambda>r. email_id r \<notin> set (map ID gone)) (attachments s)
                  else attachments s)
      in (int (length gone), s\<lparr>emails := kept, attachments := atts\<rparr>))"

definition DeleteEmail :: "SQLiteStorage \<Rightarrow> int \<Rightarrow> storage_error option \<times> SQLiteStorage" where
  "DeleteEmail s eid =
     (let (rows, s') = sql_delete_emails (\<lambda>e. ID e = eid) s
      in if rows = 0 then (Some ErrNotFound, s') else (None, s'))"

definition DeleteAllEmails :: "SQLiteStorage \<Rightarrow> storage_error option \<times> SQLiteStorage" where
  "DeleteAllEmails s = (None, snd (sql_delete_emails (\<lambda>e. True) s))"

definition GetEmailCount :: "SQLiteStorage \<Rightarrow> int" where
  "GetEmailCount s = int (length (emails s))"

definition DeleteOldEmails :: "SQLiteStorage \<Rightarrow> int \<Rightarrow> int \<times> SQLiteStorage" where
  "DeleteOldEmails s before = sql_delete_emails (\<lambda>e. ReceivedAt e < before) s"

section \<open>Queries\<close>

subsection \<open>The SQL operators the queries use\<close>

text \<open>
  SQLite's \<open>LIKE\<close>, pattern first: \<open>%\<close> matches any run of characters, \<open>_\<close> matches
  exactly one character, every other character matches itself, ignoring the case of
  ASCII letters. The queries give no \<open>ESCAPE\<close> character.
\<close>

fun like :: "string \<Rightarrow> string \<Rightarrow> bool" where
  "like [] t = (t = [])"
| "like (p # ps) [] = (p = CHR ''%'' \<and> like ps [])"
| "like (p # ps) (c # cs) =
     (if p = CHR ''%'' then like ps (c # cs) \<or> like (p # ps) cs
      else (p = CHR ''_'' \<or> ascii_lower p = ascii_lower c) \<and> like ps cs)"

text \<open>The pattern the code builds: \<open>"%" + x + "%"\<close>.\<close>

definition contains_pattern :: "string \<Rightarrow> string" where
  "contains_pattern x = ''%'' @ x @ ''%''"

text \<open>
  \<open>ORDER BY received_at DESC\<close>: the rows, scanned in rowid order, sorted by descending
  \<open>received_at\<close>. The statement names no second key, so rows with equal \<open>received_at\<close>
  stay in scan order (the order in which index \<open>idx_emails_received\<close> holds them).
\<close>

definition order_by_received_at_desc :: "Email list \<Rightarrow> Email list" where
  "order_by_received_at_desc rows = sort_key (\<lambda>e. - ReceivedAt e) rows"

text \<open>
  \<open>LIMIT l OFFSET o\<close>: a negative offset counts as 0, a negative limit as no limit.
\<close>

definition limit_offset :: "int \<Rightarrow> int \<Rightarrow> 'a list \<Rightarrow> 'a list" where
  "limit_offset l off rows =
     (let rest = drop (nat off) rows in if l < 0 then rest else take (nat l) rest)"

subsection \<open>ListEmails\<close>



subsection \<open>SearchEmails\<close>

text \<open>The \<open>WHERE\<close> clause of the LIKE-based fallback.\<close>

definition search_where_like :: "string \<Rightarrow> Email \<Rightarrow> bool" where
  "search_where_like query e =
     (let searchPattern = contains_pattern query in
      like searchPattern (Subject e) \<or> like searchPattern (From e)
      \<or> like searchPattern (json_marshal (To e)) \<or> like searchPattern (BodyPlain e))"

text \<open>
  The columns of the FTS5 table \<open>emails_fts\<close>, which the triggers of the schema copy
  from the message row.
\<close>

definition fts_columns :: "Email \<Rightarrow> string list" where
  "fts_columns e = [Subject e, From e, json_marshal (To e), BodyPlain e]"

text \<open>
  \<open>SearchEmails\<close>. The FTS5 engine is not part of the repository: its \<open>MATCH\<close> is the
  parameter \<open>fts_match\<close>. For a query text the engine rejects it gives \<open>None\<close> (the row
  query then fails and \<open>SearchEmails\<close> returns the error); otherwise it gives the test
  the engine applies to the indexed columns of a row.
\<close>

definition SearchEmails ::
  "(string \<Rightarrow> (string list \<Rightarrow> bool) option) \<Rightarrow> SQLiteStorage \<Rightarrow> string \<Rightarrow> int \<Rightarrow> int
     \<Rightarrow> storage_error + EmailListResult" where
  "SearchEmails fts_match s query limit offset =
     (if hasFTS5 s then
        (case fts_match query of
           None \<Rightarrow> Inl (ErrSQL ''fts5: syntax error'')
         | Some matches \<Rightarrow>
             let matching = List.filter (\<lambda>e. matches (fts_columns e)) (emails s)
             in Inr \<lparr>Emails = limit_offset limit offset (order_by_received_at_desc matching),
                     Total = int (length matching)\<rparr>)
      else
        let matching = List.filter (search_where_like query) (emails s)
        in Inr \<lparr>Emails = limit_offset limit offset (order_by_received_at_desc matching),
                Total = int (length matching)\<rparr>)"

subsection \<open>DeleteExcessEmails\<close>



subsection \<open>The canonical order of the specification\<close>



section \<open>Sample inputs\<close>

definition sample_meta :: AttachmentMeta where
  "sample_meta = \<lparr>att_ID = 0, Filename = ''report.pdf'', ContentType = ''application/pdf'',
                   att_Size = 3\<rparr>"

definition sample_mail :: Email where
  "sample_mail =
     \<lparr>ID = 0, MessageID = ''<m1@example.org>'', From = ''alice@example.org'',
      To = Slice [''bob@example.org''], CC = nil, BCC = nil, Subject = ''Quarterly report'',
      BodyPlain = ''see attachment'', BodyHTML = [], Headers = [],
      Attachments = [sample_meta], Size = 120, ReceivedAt = 1000, Read = False\<rparr>"

text \<open>A database file that holds message 1 and attachment 7, owned by message 1.\<close>

definition sample_file :: db_file where
  "sample_file =
     \<lparr>file_emails = [sample_mail\<lparr>ID := 1, Attachments := []\<rparr>],
      file_attachments =
        [\<lparr>row_id = 7, email_id = 1, row_filename = ''report.pdf'',
          row_content_type = ''application/pdf'', row_size = 3, row_data = ''PDF''\<rparr>],
      file_email_seq = 1, file_att_seq = 7\<rparr>"




section \<open>The search contract of the specification\<close>



definition has_wildcard :: "string \<Rightarrow> bool" where
  "has_wildcard q = (CHR ''%'' \<in> set q \<or> CHR ''_'' \<in> set q)"

text \<open>A single token: a non-empty run of ASCII letters and digits.\<close>

definition is_alnum :: "char \<Rightarrow> bool" where
  "is_alnum c =
     (let n = (of_char c :: nat)
      in (48 \<le> n \<and> n \<le> 57) \<or> (65 \<le> n \<and> n \<le> 90) \<or> (97 \<le> n \<and> n \<le> 122))"

definition is_token :: "string \<Rightarrow> bool" where
  "is_token q = (q \<noteq> [] \<and> list_all is_alnum q)"

subsection \<open>A sample full-text engine\<close>

text \<open>
  A simple full-text engine, used as a sample of the parameter \<open>fts_match\<close>: it splits a
  column into runs of letters and digits, folds them to lower case, and matches a
  single-token query against them; it rejects any other query text.
\<close>

fun tokens_acc :: "string \<Rightarrow> string \<Rightarrow> string list" where
  "tokens_acc cur [] = (if cur = [] then [] else [rev cur])"
| "tokens_acc cur (c # cs) =
     (if is_alnum c then tokens_acc (ascii_lower c # cur) cs
      else (if cur = [] then [] else [rev cur]) @ tokens_acc [] cs)"

definition token_occurs :: "string \<Rightarrow> string list \<Rightarrow> bool" where
  "token_occurs q cols = (to_lower q \<in> set (concat (map (tokens_acc []) cols)))"

definition sample_fts_match :: "string \<Rightarrow> (string list \<Rightarrow> bool) option" where
  "sample_fts_match q = (if is_token q then Some (token_occurs q) else None)"

subsection \<open>Sample messages for searching\<close>

text \<open>Three stored messages; the word \<open>invoice\<close> occurs only in the first subject.\<close>

definition search_row1 :: Email where
  "search_row1 = sample_mail\<lparr>ID := 1, Attachments := [], MessageID := ''<1@x>'',
                              Subject := ''Your Invoice''\<rparr>"

definition search_row2 :: Email where
  "search_row2 = sample_mail\<lparr>ID := 2, Attachments := [], MessageID := ''<2@x>'',
                              Subject := ''abc'', ReceivedAt := 2000\<rparr>"

definition search_row3 :: Email where
  "search_row3 = sample_mail\<lparr>ID := 3, Attachments := [], MessageID := ''<3@x>'',
                              Subject := ''Minutes'', ReceivedAt := 3000\<rparr>"

definition search_rows :: "Email list" where
  "search_rows = [search_row1, search_row2, search_row3]"

definition search_store :: "bool \<Rightarrow> SQLiteStorage" where
  "search_store fts5 =
     NewSQLiteStorage \<lparr>file_emails = search_rows, file_attachments = [], file_email_seq = 3,
                       file_att_seq = 0\<rparr> fts5"

section \<open>The SMTP session\<close>

record Session =
  sess_from :: string
  sess_to :: "string slice"

definition new_session :: Session where
  "new_session = \<lparr>sess_from = [], sess_to = nil\<rparr>"

definition Mail :: "Session \<Rightarrow> string \<Rightarrow> Session" where
  "Mail s from_addr = s\<lparr>sess_from := from_addr\<rparr>"

text \<open>\<open>append\<close> to a slice; the result is never nil.\<close>

definition append_slice :: "'a slice \<Rightarrow> 'a \<Rightarrow> 'a slice" where
  "append_slice s x = Slice (elems s @ [x])"

definition Rcpt :: "Session \<Rightarrow> string \<Rightarrow> Session" where
  "Rcpt s to_addr = s\<lparr>sess_to := append_slice (sess_to s) to_addr\<rparr>"

definition Reset :: "Session \<Rightarrow> Session" where
  "Reset s = s\<lparr>sess_from := [], sess_to := nil\<rparr>"

datatype data_error = ParseFailed string | SaveFailed storage_error

text \<open>
  \<open>Session.Data\<close>. The parser's result for the bytes read (\<open>parsed\<close>) and the clock
  (\<open>now\<close>) are inputs. The result is the error returned to the SMTP library, the store
  afterwards, and the message handed to the new-mail callback.
\<close>

definition Session_Data ::
  "Session \<Rightarrow> string + Email \<Rightarrow> int \<Rightarrow> SQLiteStorage
     \<Rightarrow> data_error option \<times> SQLiteStorage \<times> Email option" where
  "Session_Data s parsed now store =
     (case parsed of
        Inl err \<Rightarrow> (Some (ParseFailed err), store, None)
      | Inr email \<Rightarrow>
          let email1 = (if From email = [] then email\<lparr>From := sess_from s\<rparr> else email);
              email2 = (if len (To email1) = 0 then email1\<lparr>To := sess_to s\<rparr> else email1);
              email3 = email2\<lparr>ReceivedAt := now\<rparr>
          in (case SaveEmail store email3 of
                (Inl err, store') \<Rightarrow> (Some (SaveFailed err), store', None)
              | (Inr new_id, store') \<Rightarrow> (None, store', Some (email3\<lparr>ID := new_id\<rparr>))))"

text \<open>A session after \<open>MAIL FROM\<close> and one \<open>RCPT TO\<close>, and a message without sender and recipient headers.\<close>

definition envelope_session :: Session where
  "envelope_session = Rcpt (Mail new_session ''sender@envelope.test'') ''rcpt@envelope.test''"

definition headerless_mail :: Email where
  "headerless_mail = sample_mail\<lparr>From := [], To := nil, Attachments := []\<rparr>"

section \<open>The HTTP handlers\<close>

text \<open>
  A request as the handlers read it: the URL query parameters and the path variables
  of the route (\<open>mux.Vars\<close>).
\<close>

record Request =
  url_query :: "(string \<times> string) list"
  mux_vars :: "(string \<times> string) list"

record APIError =
  Code :: string
  Message :: string

datatype response_data = SearchPage "Email list" int int int

record APIResponse =
  Success :: bool
  ResponseData :: "response_data option"
  Error :: "APIError option"

text \<open>
  What a handler writes: a JSON envelope with its status code, or an attachment download
  (content type, file name of the disposition header, content length, body).
\<close>

datatype http_response =
    JSONResponse nat APIResponse
  | AttachmentResponse string string int string

definition sendSuccess :: "response_data \<Rightarrow> http_response" where
  "sendSuccess d = JSONResponse 200 \<lparr>Success = True, ResponseData = Some d, Error = None\<rparr>"

definition sendError :: "nat \<Rightarrow> string \<Rightarrow> string \<Rightarrow> http_response" where
  "sendError status code message =
     JSONResponse status
       \<lparr>Success = False, ResponseData = None, Error = Some \<lparr>Code = code, Message = message\<rparr>\<rparr>"

text \<open>The calls a handler makes on the store, in order.\<close>

datatype storage_call = Call_SearchEmails string int int | Call_GetAttachment int

fun error_text :: "storage_error \<Rightarrow> string" where
  "error_text ErrNotFound = ''email not found''"
| "error_text ErrInvalidID = ''invalid email ID''"
| "error_text (ErrConstraint m) = m"
| "error_text (ErrSQL m) = m"

subsection \<open>Parsing integers\<close>

text \<open>
  \<open>strconv.ParseInt(s, 10, 64)\<close> and \<open>strconv.Atoi\<close> (an \<open>int\<close> has 64 bits): an optional
  sign, then one or more decimal digits; \<open>None\<close> for a syntax error or a value outside
  the 64-bit range.
\<close>

definition is_digit :: "char \<Rightarrow> bool" where
  "is_digit c = (48 \<le> (of_char c :: nat) \<and> (of_char c :: nat) \<le> 57)"

fun digits_value :: "int \<Rightarrow> string \<Rightarrow> int option" where
  "digits_value acc [] = Some acc"
| "digits_value acc (c # cs) =
     (if is_digit c then digits_value (acc * 10 + (int (of_char c) - 48)) cs else None)"

definition MaxInt :: int where
  "MaxInt = 2 ^ 63 - 1"

definition ParseInt :: "string \<Rightarrow> int option" where
  "ParseInt s =
     (case s of
        [] \<Rightarrow> None
      | c # cs \<Rightarrow>
          let neg = (c = CHR ''-'');
              ds = (if c = CHR ''-'' \<or> c = CHR ''+'' then cs else s)
          in if ds = [] then None
             else (case digits_value 0 ds of
                     None \<Rightarrow> None
                   | Some v \<Rightarrow>
                       let n = (if neg then - v else v)
                       in if - (2 ^ 63) \<le> n \<and> n \<le> MaxInt then Some n else None))"

definition Atoi :: "string \<Rightarrow> int option" where
  "Atoi s = ParseInt s"

definition parseIntParam :: "Request \<Rightarrow> string \<Rightarrow> int \<Rightarrow> int \<Rightarrow> int \<Rightarrow> int" where
  "parseIntParam r name defaultValue lo hi =
     (let v = lookup (url_query r) name in
      if v = [] then defaultValue
      else (case Atoi v of
              None \<Rightarrow> defaultValue
            | Some parsed \<Rightarrow> if parsed < lo then lo else if parsed > hi then hi else parsed))"

subsection \<open>handleSearchEmails\<close>

definition handleSearchEmails ::
  "(string \<Rightarrow> (string list \<Rightarrow> bool) option) \<Rightarrow> SQLiteStorage \<Rightarrow> Request
     \<Rightarrow> http_response \<times> storage_call list" where
  "handleSearchEmails fts_match store r =
     (let query = lookup (url_query r) ''q'' in
      if query = [] then (sendError 400 ''INVALID_REQUEST'' ''Search query is required'', [])
      else
        let limit = parseIntParam r ''limit'' 50 1 100;
            offset = parseIntParam r ''offset'' 0 0 MaxInt
        in (case SearchEmails fts_match store query limit offset of
              Inl err \<Rightarrow>
                (sendError 500 ''STORAGE_ERROR'' (error_text err),
                 [Call_SearchEmails query limit offset])
            | Inr result \<Rightarrow>
                (sendSuccess (SearchPage (Emails result) (Total result) limit offset),
                 [Call_SearchEmails query limit offset])))"

subsection \<open>handleGetAttachment\<close>


section \<open>The MIME decoder\<close>

text \<open>
  A MIME entity as the parser reads it through the message library: the parsed
  \<open>Content-Type\<close> (\<open>None\<close> when \<open>Header.ContentType\<close> returns an error), the parsed
  \<open>Content-Disposition\<close> (its error is ignored; the library then gives \<open>""\<close> and no
  parameters), the \<open>Content-Transfer-Encoding\<close> header, the result of reading the body,
  and for a multipart entity the parts its reader yields before it ends with \<open>io.EOF\<close>
  (\<open>None\<close>) or with an error.
\<close>

datatype Entity = Entity
  (ent_content_type: "(string \<times> (string \<times> string) list) option")
  (ent_disposition: "string \<times> (string \<times> string) list")
  (ent_encoding: string)
  (ent_body: "string + string")
  (ent_parts: "Entity list")
  (ent_parts_error: "string option")

text \<open>The decoders of the standard library, parameters of the model.\<close>

record codecs =
  base64_decode :: "string \<Rightarrow> string option"
  qp_decode :: "string \<Rightarrow> string option"

definition decodeContent :: "codecs \<Rightarrow> string \<Rightarrow> string \<Rightarrow> string" where
  "decodeContent c data encoding =
     (let enc = to_lower (trim_space encoding) in
      if enc = ''base64'' then (case base64_decode c data of Some decoded \<Rightarrow> decoded | None \<Rightarrow> data)
      else if enc = ''quoted-printable''
        then (case qp_decode c data of Some decoded \<Rightarrow> decoded | None \<Rightarrow> data)
      else data)"

definition mediaType :: "Entity \<Rightarrow> string" where
  "mediaType e = (case ent_content_type e of None \<Rightarrow> ''text/plain'' | Some (t, ps) \<Rightarrow> t)"

definition params :: "Entity \<Rightarrow> (string \<times> string) list" where
  "params e = (case ent_content_type e of None \<Rightarrow> [] | Some (t, ps) \<Rightarrow> ps)"

definition disposition :: "Entity \<Rightarrow> string" where
  "disposition e = fst (ent_disposition e)"

definition dispParams :: "Entity \<Rightarrow> (string \<times> string) list" where
  "dispParams e = snd (ent_disposition e)"

definition isAttachment :: "Entity \<Rightarrow> bool" where
  "isAttachment e =
     (disposition e = ''attachment''
      \<or> (disposition e = ''inline'' \<and> lookup (dispParams e) ''filename'' \<noteq> []))"

definition attachment_filename :: "Entity \<Rightarrow> string" where
  "attachment_filename e =
     (let filename = lookup (dispParams e) ''filename'';
          filename = (if filename = [] then lookup (params e) ''name'' else filename)
      in if filename = [] then ''attachment'' else filename)"

text \<open>
  \<open>parsePart\<close>, with the message under construction passed through. \<open>parseParts\<close> is
  the loop over \<open>mr.NextPart()\<close>.
\<close>

fun parsePart :: "codecs \<Rightarrow> Entity \<Rightarrow> Email \<Rightarrow> string + (Attachment list \<times> Email)"
and parseParts :: "codecs \<Rightarrow> Entity list \<Rightarrow> string option \<Rightarrow> Email
                     \<Rightarrow> string + (Attachment list \<times> Email)" where
  "parsePart c (Entity ct disp enc body parts perr) email =
     (if isAttachment (Entity ct disp enc body parts perr) then
        (case body of
           Inl err \<Rightarrow> Inl err
         | Inr data \<Rightarrow>
             Inr ([\<lparr>att_ID = 0, Filename = attachment_filename (Entity ct disp enc body parts perr),
                     ContentType = mediaType (Entity ct disp enc body parts perr),
                     att_Size = int (length (decodeContent c data enc)),
                     Data = decodeContent c data enc\<rparr>], email))
      else if prefix ''text/'' (mediaType (Entity ct disp enc body parts perr)) then
        (case body of
           Inl err \<Rightarrow> Inl err
         | Inr data \<Rightarrow>
             Inr ([],
                  if mediaType (Entity ct disp enc body parts perr) = ''text/plain''
                    then email\<lparr>BodyPlain := decodeContent c data enc\<rparr>
                  else if mediaType (Entity ct disp enc body parts perr) = ''text/html''
                    then email\<lparr>BodyHTML := decodeContent c data enc\<rparr>
                  else email))
      else if prefix ''multipart/'' (mediaType (Entity ct disp enc body parts perr)) then
        parseParts c parts perr email
      else Inr ([], email))"
| "parseParts c [] perr email = (case perr of None \<Rightarrow> Inr ([], email) | Some err \<Rightarrow> Inl err)"
| "parseParts c (part # rest) perr email =
     (case parsePart c part email of
        Inl err \<Rightarrow> Inl err
      | Inr (atts, email') \<Rightarrow>
          (case parseParts c rest perr email' of
             Inl err \<Rightarrow> Inl err
           | Inr (atts', email'') \<Rightarrow> Inr (atts @ atts', email'')))"

definition parseBody :: "codecs \<Rightarrow> Entity \<Rightarrow> Email \<Rightarrow> string + (Attachment list \<times> Email)" where
  "parseBody c entity email =
     (if prefix ''multipart/'' (mediaType entity)
      then parseParts c (ent_parts entity) (ent_parts_error entity) email
      else parsePart c entity email)"

text \<open>The classification of the specification.\<close>

definition spec_is_attachment :: "Entity \<Rightarrow> bool" where
  "spec_is_attachment e =
     (disposition e = ''attachment''
      \<or> (disposition e = ''inline'' \<and> lookup (dispParams e) ''filename'' \<noteq> [])
      \<or> (\<not> prefix ''text/'' (mediaType e) \<and> \<not> prefix ''multipart/'' (mediaType e)))"

text \<open>Decoders that reject their input: \<open>decodeContent\<close> then keeps the bytes as they are.\<close>

definition rejecting_codecs :: codecs where
  "rejecting_codecs = \<lparr>base64_decode = (\<lambda>d. None), qp_decode = (\<lambda>d. None)\<rparr>"

text \<open>An image part without \<open>Content-Disposition\<close>, and the same part sent as attachment.\<close>

definition image_part :: Entity where
  "image_part = Entity (Some (''image/png'', [(''name'', ''logo.png'')])) ([], []) ''base64''
                  (Inr ''PNGDATA'') [] None"

definition attached_image_part :: Entity where
  "attached_image_part = Entity (Some (''image/png'', [(''name'', ''logo.png'')]))
                  (''attachment'', []) ''base64'' (Inr ''PNGDATA'') [] None"

definition inline_image_part :: Entity where
  "inline_image_part = Entity (Some (''image/png'', [(''name'', ''logo.png'')]))
                  (''inline'', [(''filename'', ''banner.png'')]) [] (Inr ''PNGDATA'') [] None"

section \<open>The WebSocket hub\<close>

text \<open>
  What a Go statement does to the goroutine that runs it: it completes with a result,
  it blocks, or it panics.
\<close>

datatype 'a outcome = Returns 'a | Blocks | Panics

text \<open>A buffered channel: the queued values, oldest first, and whether it was closed.\<close>

record 'a chan =
  buf :: "'a list"
  closed :: bool

definition make_chan :: "'a chan" where
  "make_chan = \<lparr>buf = [], closed = False\<rparr>"

text \<open>
  \<open>ch <- v\<close> on a channel of capacity \<open>cap\<close> with no receiver waiting: the value is
  queued if there is room, the sender blocks if the buffer is full, and a send on a
  closed channel panics. \<open>close(ch)\<close> panics on a closed channel.
\<close>

definition chan_send :: "nat \<Rightarrow> 'a chan \<Rightarrow> 'a \<Rightarrow> 'a chan outcome" where
  "chan_send cap ch v =
     (if closed ch then Panics
      else if length (buf ch) < cap then Returns (ch\<lparr>buf := buf ch @ [v]\<rparr>)
      else Blocks)"

definition chan_close :: "'a chan \<Rightarrow> 'a chan outcome" where
  "chan_close ch = (if closed ch then Panics else Returns (ch\<lparr>closed := True\<rparr>))"

record WebSocketMessage =
  msg_Type :: string
  msg_Data :: "(string \<times> string) list"

text \<open>
  The hub and its clients. A client (a \<open>*WebSocketClient\<close>) is a number; \<open>send\<close> gives
  each client's outbound channel, \<open>clients\<close> are the keys of the map \<open>h.clients\<close> in the
  order in which \<open>range\<close> visits them, \<open>broadcast\<close> is the hub's inbound channel and
  \<open>next_client\<close> the next client to be created. Both kinds of channel are made with
  capacity 256.
\<close>

type_synonym client = nat

record WebSocketHub =
  clients :: "client list"
  broadcast :: "WebSocketMessage chan"
  send :: "client \<Rightarrow> WebSocketMessage chan"
  next_client :: nat

definition chan_cap :: nat where
  "chan_cap = 256"

definition NewWebSocketHub :: WebSocketHub where
  "NewWebSocketHub =
     \<lparr>clients = [], broadcast = make_chan, send = (\<lambda>c. make_chan), next_client = 0\<rparr>"

text \<open>
  \<open>Broadcast\<close>: \<open>select { case h.broadcast <- message: default: (log, drop) }\<close>. The
  default branch runs when the send would block.
\<close>

definition Broadcast :: "WebSocketHub \<Rightarrow> WebSocketMessage \<Rightarrow> WebSocketHub outcome" where
  "Broadcast h message =
     (case chan_send chan_cap (broadcast h) message of
        Returns ch \<Rightarrow> Returns (h\<lparr>broadcast := ch\<rparr>)
      | Blocks \<Rightarrow> Returns h
      | Panics \<Rightarrow> Panics)"

text \<open>The three cases of the \<open>select\<close> in \<open>Run\<close>.\<close>

definition Run_register :: "WebSocketHub \<Rightarrow> client \<Rightarrow> WebSocketHub outcome" where
  "Run_register h c =
     Returns (h\<lparr>clients := (if c \<in> set (clients h) then clients h else clients h @ [c])\<rparr>)"

definition Run_unregister :: "WebSocketHub \<Rightarrow> client \<Rightarrow> WebSocketHub outcome" where
  "Run_unregister h c =
     (if c \<in> set (clients h) then
        (case chan_close (send h c) of
           Returns ch \<Rightarrow> Returns (h\<lparr>clients := removeAll c (clients h), send := (send h)(c := ch)\<rparr>)
         | Blocks \<Rightarrow> Blocks
         | Panics \<Rightarrow> Panics)
      else Returns h)"

text \<open>
  The loop \<open>for client := range h.clients\<close> of the broadcast case, over the clients still
  to visit: \<open>select { case client.send <- message: default: close(client.send);
  delete(h.clients, client) }\<close>.
\<close>

fun deliver :: "WebSocketMessage \<Rightarrow> client list \<Rightarrow> WebSocketHub \<Rightarrow> WebSocketHub outcome" where
  "deliver message [] h = Returns h"
| "deliver message (c # cs) h =
     (case chan_send chan_cap (send h c) message of
        Returns ch \<Rightarrow> deliver message cs (h\<lparr>send := (send h)(c := ch)\<rparr>)
      | Blocks \<Rightarrow>
          (case chan_close (send h c) of
             Returns ch \<Rightarrow>
               deliver message cs
                 (h\<lparr>send := (send h)(c := ch), clients := removeAll c (clients h)\<rparr>)
           | Blocks \<Rightarrow> Blocks
           | Panics \<Rightarrow> Panics)
      | Panics \<Rightarrow> Panics)"

definition Run_broadcast :: "WebSocketHub \<Rightarrow> WebSocketMessage \<Rightarrow> WebSocketHub outcome" where
  "Run_broadcast h message = deliver message (clients h) h"

text \<open>\<open>Shutdown\<close> closes the connections and empties the map.\<close>

definition Shutdown :: "WebSocketHub \<Rightarrow> WebSocketHub" where
  "Shutdown h = h\<lparr>clients := []\<rparr>"

text \<open>
  The states the hub can reach. \<open>ServeWS\<close> creates the next client and hands it to
  \<open>Run\<close> over \<open>register\<close>; a client's \<open>readPump\<close> ends and \<open>Run\<close> takes its
  \<open>unregister\<close>; somebody publishes; \<open>Run\<close> takes the oldest message from \<open>broadcast\<close>
  and delivers it; a client's \<open>writePump\<close> takes the oldest message from its channel;
  the hub is shut down.
\<close>

inductive reachable :: "WebSocketHub \<Rightarrow> bool" where
  init: "reachable NewWebSocketHub"
| serve: "reachable h \<Longrightarrow> Run_register (h\<lparr>next_client := Suc (next_client h)\<rparr>) (next_client h) = Returns h'
          \<Longrightarrow> reachable h'"
| unregister: "reachable h \<Longrightarrow> c < next_client h \<Longrightarrow> Run_unregister h c = Returns h'
          \<Longrightarrow> reachable h'"
| publish: "reachable h \<Longrightarrow> Broadcast h message = Returns h' \<Longrightarrow> reachable h'"
| dispatch: "reachable h \<Longrightarrow> buf (broadcast h) = message # rest
          \<Longrightarrow> Run_broadcast (h\<lparr>broadcast := (broadcast h)\<lparr>buf := rest\<rparr>\<rparr>) message = Returns h'
          \<Longrightarrow> reachable h'"
| drain: "reachable h \<Longrightarrow> buf (send h c) = message # rest
          \<Longrightarrow> reachable (h\<lparr>send := (send h)(c := (send h c)\<lparr>buf := rest\<rparr>)\<rparr>)"
| shutdown: "reachable h \<Longrightarrow> reachable (Shutdown h)"

text \<open>Every registered client was created, is registered once, and has an open channel.\<close>

definition hub_inv :: "WebSocketHub \<Rightarrow> bool" where
  "hub_inv h =
     (distinct (clients h)
      \<and> list_all (\<lambda>c. c < next_client h \<and> \<not> closed (send h c)) (clients h)
      \<and> \<not> closed (broadcast h)
      \<and> (\<forall>c. next_client h \<le> c \<longrightarrow> \<not> closed (send h c)))"

text \<open>
  Two subscribers, client 0 and client 1, and an arrival event. In \<open>hub_two n\<close> client 0
  has not taken any of \<open>n\<close> delivered events from its channel, client 1 has taken all.
\<close>

definition sample_event :: WebSocketMessage where
  "sample_event = \<lparr>msg_Type = ''email.new'', msg_Data = [(''id'', ''1'')]\<rparr>"

definition hub_two :: "nat \<Rightarrow> WebSocketHub" where
  "hub_two n =
     \<lparr>clients = [0, 1], broadcast = make_chan,
      send = (\<lambda>c. make_chan)(0 := \<lparr>buf = replicate n sample_event, closed = False\<rparr>),
      next_client = 2\<rparr>"

section \<open>Saving a message\<close>

lemma insert_attachments_unchanged: "insert_attachments s emailID atts = s"
  by (induction atts) simp_all

lemma SaveEmail_attachments: "attachments (snd (SaveEmail s email)) = attachments s"
  by (simp add: SaveEmail_def Let_def insert_attachments_unchanged)

text \<open>
  C1 (fails on the code). Saving a message that carries one attachment into an empty
  store succeeds with id 1, yet reading message 1 back shows no attachment, the
  attachment table is still empty and no attachment payload can be fetched: the type
  assertion in the loop of \<open>SaveEmail\<close> never succeeds, so no attachment row is ever
  inserted.
\<close>

theorem SaveEmail_loses_attachments:
  "fst (SaveEmail (NewSQLiteStorage empty_file False) sample_mail) = Inr 1
   \<and> GetEmail (snd (SaveEmail (NewSQLiteStorage empty_file False) sample_mail)) 1
       = Inr (sample_mail\<lparr>ID := 1, Attachments := []\<rparr>)
   \<and> attachments (snd (SaveEmail (NewSQLiteStorage empty_file False) sample_mail)) = []
   \<and> GetAttachment (snd (SaveEmail (NewSQLiteStorage empty_file False) sample_mail)) 1
       = Inl ErrNotFound"
  by (simp add: SaveEmail_def NewSQLiteStorage_def empty_file_def sample_mail_def
      GetEmail_def GetAttachment_def Let_def)

section \<open>Deleting a message\<close>

text \<open>
  C2 (fails on the code). The store is opened on a file that holds message 1 and its
  attachment 7. \<open>DeleteEmail\<close> of message 1 succeeds and the message is gone, but
  attachment 7 is still served: the connection string does not enable foreign keys, so
  the \<open>ON DELETE CASCADE\<close> of the schema never runs and the attachment is an orphan.
\<close>

theorem DeleteEmail_leaves_orphan:
  "fst (DeleteEmail (NewSQLiteStorage sample_file False) 1) = None
   \<and> GetEmail (snd (DeleteEmail (NewSQLiteStorage sample_file False) 1)) 1 = Inl ErrNotFound
   \<and> GetAttachment (snd (DeleteEmail (NewSQLiteStorage sample_file False) 1)) 7
       = Inr \<lparr>att_ID = 7, Filename = ''report.pdf'', ContentType = ''application/pdf'',
              att_Size = 3, Data = ''PDF''\<rparr>"
  by (simp add: DeleteEmail_def sql_delete_emails_def NewSQLiteStorage_def sample_file_def
      sample_mail_def dsn_foreign_keys_def dsn_params_def lookup_def GetEmail_def
      GetAttachment_def Let_def)

section \<open>Listing\<close>






section \<open>Count-based eviction\<close>












section \<open>Searching\<close>


lemma like_exact:
  "\<not> has_wildcard q \<Longrightarrow> like q t \<longleftrightarrow> to_lower q = to_lower t"
proof (induction q arbitrary: t)
  case Nil
  then show ?case by (simp add: to_lower_def)
next
  case (Cons p ps)
  then have nw: "p \<noteq> CHR ''%''" "p \<noteq> CHR ''_''" "\<not> has_wildcard ps"
    by (auto simp: has_wildcard_def)
  show ?case
  proof (cases t)
    case Nil
    then show ?thesis using nw by (simp add: to_lower_def)
  next
    case (Cons c cs)
    then show ?thesis using nw Cons.IH[OF nw(3), of cs] by (auto simp: to_lower_def)
  qed
qed


















section \<open>Receiving a message\<close>

lemma SaveEmail_rows:
  "SaveEmail store email = (Inr new_id, store') \<Longrightarrow>
     emails store' = emails store @ [email\<lparr>ID := new_id, Attachments := []\<rparr>]"
  by (auto simp: SaveEmail_def Let_def insert_attachments_unchanged split: if_splits)

text \<open>
  C9. Whenever \<open>Session.Data\<close> accepts a message, the row it stores (and the message it
  hands to the new-mail callback) carries the decoded sender if that is not empty and
  the envelope sender otherwise, and the decoded recipient list if that is not empty and
  the envelope recipients otherwise.
\<close>

theorem Data_envelope_fallback:
  assumes "Session_Data s (Inr email) now store = (None, store', notified)"
  shows "emails store' = emails store @ [last (emails store')]
     \<and> From (last (emails store')) = (if From email = [] then sess_from s else From email)
     \<and> To (last (emails store')) = (if len (To email) = 0 then sess_to s else To email)
     \<and> map_option From notified = Some (From (last (emails store')))
     \<and> map_option To notified = Some (To (last (emails store')))"
proof -
  let ?e1 = "if From email = [] then email\<lparr>From := sess_from s\<rparr> else email"
  let ?e2 = "if len (To ?e1) = 0 then ?e1\<lparr>To := sess_to s\<rparr> else ?e1"
  let ?e3 = "?e2\<lparr>ReceivedAt := now\<rparr>"
  obtain res st where sv: "SaveEmail store ?e3 = (res, st)" by (cases "SaveEmail store ?e3")
  with assms obtain new_id where ok: "res = Inr new_id" "st = store'"
    "notified = Some (?e3\<lparr>ID := new_id\<rparr>)"
    by (cases res) (auto simp: Session_Data_def Let_def)
  from sv ok have rows: "emails store' = emails store @ [?e3\<lparr>ID := new_id, Attachments := []\<rparr>]"
    using SaveEmail_rows by blast
  then have l: "last (emails store') = ?e3\<lparr>ID := new_id, Attachments := []\<rparr>" by simp
  show ?thesis
    using rows ok(3) by (simp add: l len_def)
qed

theorem Data_envelope_fallback_witness:
  "fst (Session_Data envelope_session (Inr headerless_mail) 42 (NewSQLiteStorage empty_file False)) = None
   \<and> From (last (emails (fst (snd (Session_Data envelope_session (Inr headerless_mail) 42
                (NewSQLiteStorage empty_file False)))))) = ''sender@envelope.test''
   \<and> To (last (emails (fst (snd (Session_Data envelope_session (Inr headerless_mail) 42
                (NewSQLiteStorage empty_file False)))))) = Slice [''rcpt@envelope.test'']
   \<and> From (last (emails (fst (snd (Session_Data envelope_session (Inr sample_mail) 42
                (NewSQLiteStorage empty_file False)))))) = ''alice@example.org''
   \<and> To (last (emails (fst (snd (Session_Data envelope_session (Inr sample_mail) 42
                (NewSQLiteStorage empty_file False)))))) = Slice [''bob@example.org'']"
proof -
  let ?s0 = "NewSQLiteStorage empty_file False"
  let ?r = "Session_Data envelope_session (Inr headerless_mail) 42 ?s0"
  let ?r' = "Session_Data envelope_session (Inr sample_mail) 42 ?s0"
  have ok: "fst ?r = None"
    by (simp add: Session_Data_def SaveEmail_def NewSQLiteStorage_def empty_file_def Let_def)
  then have eq: "?r = (None, fst (snd ?r), snd (snd ?r))" by (metis prod.collapse)
  have ok': "fst ?r' = None"
    by (simp add: Session_Data_def SaveEmail_def NewSQLiteStorage_def empty_file_def Let_def)
  then have eq': "?r' = (None, fst (snd ?r'), snd (snd ?r'))" by (metis prod.collapse)
  have env: "sess_from envelope_session = ''sender@envelope.test''"
    "sess_to envelope_session = Slice [''rcpt@envelope.test'']"
    by (simp_all add: envelope_session_def Rcpt_def Mail_def new_session_def append_slice_def)
  have h: "From headerless_mail = []" "len (To headerless_mail) = 0"
    by (simp_all add: headerless_mail_def len_def)
  have m: "From sample_mail = ''alice@example.org''" "To sample_mail = Slice [''bob@example.org'']"
    by (simp_all add: sample_mail_def)
  have a: "From (last (emails (fst (snd ?r)))) = ''sender@envelope.test''"
    using Data_envelope_fallback[OF eq] by (simp add: env h)
  have b: "To (last (emails (fst (snd ?r)))) = Slice [''rcpt@envelope.test'']"
    using Data_envelope_fallback[OF eq] by (simp add: env h)
  have c: "From (last (emails (fst (snd ?r')))) = ''alice@example.org''"
    using Data_envelope_fallback[OF eq'] by (simp add: m)
  have d: "To (last (emails (fst (snd ?r')))) = Slice [''bob@example.org'']"
    using Data_envelope_fallback[OF eq'] by (simp add: m len_def)
  from ok a b c d show ?thesis by blast
qed


section \<open>The search and attachment handlers\<close>

text \<open>
  C8. For every store, every \<open>limit\<close> and \<open>offset\<close> parameter, a search request whose
  \<open>q\<close> parameter is empty or missing is answered with status 400, \<open>success = false\<close> and
  the error code \<open>INVALID_REQUEST\<close> (the caller-error class of the API), and the handler
  makes no call on the store.
\<close>

theorem handleSearchEmails_empty_query:
  assumes "lookup (url_query r) ''q'' = []"
  shows "handleSearchEmails fts_match store r
           = (JSONResponse 400 \<lparr>Success = False, ResponseData = None,
                Error = Some \<lparr>Code = ''INVALID_REQUEST'', Message = ''Search query is required''\<rparr>\<rparr>, [])"
  using assms by (simp add: handleSearchEmails_def sendError_def)

theorem handleSearchEmails_empty_query_witness:
  "lookup (url_query \<lparr>url_query = [(''q'', ''''), (''limit'', ''10''), (''offset'', ''3'')], mux_vars = []\<rparr>) ''q'' = []
   \<and> handleSearchEmails sample_fts_match (search_store False)
        \<lparr>url_query = [(''q'', ''''), (''limit'', ''10''), (''offset'', ''3'')], mux_vars = []\<rparr>
      = (JSONResponse 400 \<lparr>Success = False, ResponseData = None,
                Error = Some \<lparr>Code = ''INVALID_REQUEST'', Message = ''Search query is required''\<rparr>\<rparr>, [])
   \<and> fst (handleSearchEmails sample_fts_match (search_store False)
        \<lparr>url_query = [(''limit'', ''10'')], mux_vars = []\<rparr>)
      = JSONResponse 400 \<lparr>Success = False, ResponseData = None,
                Error = Some \<lparr>Code = ''INVALID_REQUEST'', Message = ''Search query is required''\<rparr>\<rparr>"
proof -
  let ?r = "\<lparr>url_query = [(''q'', ''''), (''limit'', ''10''), (''offset'', ''3'')], mux_vars = []\<rparr>"
  let ?r' = "\<lparr>url_query = [(''limit'', ''10'')], mux_vars = []\<rparr>"
  have h: "lookup (url_query ?r) ''q'' = []" by (simp add: lookup_def)
  have h': "lookup (url_query ?r') ''q'' = []" by (simp add: lookup_def)
  show ?thesis
    using h handleSearchEmails_empty_query[OF h, of sample_fts_match "search_store False"]
      handleSearchEmails_empty_query[OF h', of sample_fts_match "search_store False"]
    by simp
qed




section \<open>Decoding a MIME part\<close>

lemma parsePart_unfold:
  "parsePart c e email =
     (if isAttachment e then
        (case ent_body e of
           Inl err \<Rightarrow> Inl err
         | Inr data \<Rightarrow>
             Inr ([\<lparr>att_ID = 0, Filename = attachment_filename e, ContentType = mediaType e,
                     att_Size = int (length (decodeContent c data (ent_encoding e))),
                     Data = decodeContent c data (ent_encoding e)\<rparr>], email))
      else if prefix ''text/'' (mediaType e) then
        (case ent_body e of
           Inl err \<Rightarrow> Inl err
         | Inr data \<Rightarrow>
             Inr ([],
                  if mediaType e = ''text/plain''
                    then email\<lparr>BodyPlain := decodeContent c data (ent_encoding e)\<rparr>
                  else if mediaType e = ''text/html''
                    then email\<lparr>BodyHTML := decodeContent c data (ent_encoding e)\<rparr>
                  else email))
      else if prefix ''multipart/'' (mediaType e) then
        parseParts c (ent_parts e) (ent_parts_error e) email
      else Inr ([], email))"
  by (cases e) (simp del: prefix_code split: sum.split)

text \<open>
  C5 (as stated, fails on the code). An \<open>image/png\<close> part without a
  \<open>Content-Disposition\<close> is an attachment in the specification's classification (its
  type is neither text nor multipart), but \<open>parsePart\<close> captures nothing for it and
  leaves the message unchanged.
\<close>

theorem parsePart_counterexample:
  "spec_is_attachment image_part
   \<and> parsePart rejecting_codecs image_part sample_mail = Inr ([], sample_mail)"
  by (simp add: parsePart_unfold image_part_def spec_is_attachment_def isAttachment_def
      disposition_def dispParams_def mediaType_def lookup_def)

text \<open>
  C5 (amended). For every MIME part whose body can be read: the decoder classifies it as
  an attachment exactly when its disposition is \<open>attachment\<close>, or \<open>inline\<close> with a
  filename; a part so classified is captured as one attachment whose filename is the
  disposition's \<open>filename\<close> parameter, else the content type's \<open>name\<close> parameter, else
  \<open>attachment\<close>; a part not so classified that is not multipart yields no attachment, and
  if it is not text either it is dropped without a trace.
\<close>

theorem parsePart_classification:
  assumes "ent_body e = Inr data"
  shows "(isAttachment e \<longrightarrow>
            parsePart c e email
              = Inr ([\<lparr>att_ID = 0, Filename = attachment_filename e, ContentType = mediaType e,
                        att_Size = int (length (decodeContent c data (ent_encoding e))),
                        Data = decodeContent c data (ent_encoding e)\<rparr>], email))
    \<and> (\<not> isAttachment e \<and> \<not> prefix ''multipart/'' (mediaType e)
          \<longrightarrow> (\<exists>email'. parsePart c e email = Inr ([], email')))
    \<and> (\<not> isAttachment e \<and> \<not> prefix ''text/'' (mediaType e) \<and> \<not> prefix ''multipart/'' (mediaType e)
          \<longrightarrow> parsePart c e email = Inr ([], email))
    \<and> isAttachment e
          = (disposition e = ''attachment''
             \<or> (disposition e = ''inline'' \<and> lookup (dispParams e) ''filename'' \<noteq> []))
    \<and> attachment_filename e
          = (if lookup (dispParams e) ''filename'' \<noteq> [] then lookup (dispParams e) ''filename''
             else if lookup (params e) ''name'' \<noteq> [] then lookup (params e) ''name''
             else ''attachment'')"
proof (intro conjI impI)
  assume "isAttachment e"
  then show "parsePart c e email
      = Inr ([\<lparr>att_ID = 0, Filename = attachment_filename e, ContentType = mediaType e,
                att_Size = int (length (decodeContent c data (ent_encoding e))),
                Data = decodeContent c data (ent_encoding e)\<rparr>], email)"
    using assms by (simp add: parsePart_unfold)
next
  assume "\<not> isAttachment e \<and> \<not> prefix ''multipart/'' (mediaType e)"
  then show "\<exists>email'. parsePart c e email = Inr ([], email')"
    using assms by (simp add: parsePart_unfold del: prefix_code)
next
  assume "\<not> isAttachment e \<and> \<not> prefix ''text/'' (mediaType e) \<and> \<not> prefix ''multipart/'' (mediaType e)"
  then show "parsePart c e email = Inr ([], email)"
    by (simp add: parsePart_unfold del: prefix_code)
next
  show "isAttachment e
          = (disposition e = ''attachment''
             \<or> (disposition e = ''inline'' \<and> lookup (dispParams e) ''filename'' \<noteq> []))"
    by (simp add: isAttachment_def)
next
  show "attachment_filename e
          = (if lookup (dispParams e) ''filename'' \<noteq> [] then lookup (dispParams e) ''filename''
             else if lookup (params e) ''name'' \<noteq> [] then lookup (params e) ''name''
             else ''attachment'')"
    by (simp add: attachment_filename_def Let_def)
qed

theorem parsePart_classification_witness:
  "ent_body attached_image_part = Inr ''PNGDATA''
   \<and> parsePart rejecting_codecs attached_image_part sample_mail
       = Inr ([\<lparr>att_ID = 0, Filename = ''logo.png'', ContentType = ''image/png'', att_Size = 7,
                 Data = ''PNGDATA''\<rparr>], sample_mail)
   \<and> parsePart rejecting_codecs inline_image_part sample_mail
       = Inr ([\<lparr>att_ID = 0, Filename = ''banner.png'', ContentType = ''image/png'', att_Size = 7,
                 Data = ''PNGDATA''\<rparr>], sample_mail)
   \<and> parsePart rejecting_codecs image_part sample_mail = Inr ([], sample_mail)"
proof -
  have b1: "ent_body attached_image_part = Inr ''PNGDATA''"
    by (simp add: attached_image_part_def)
  have b2: "ent_body inline_image_part = Inr ''PNGDATA''"
    by (simp add: inline_image_part_def)
  have b3: "ent_body image_part = Inr ''PNGDATA''"
    by (simp add: image_part_def)
  have a1: "isAttachment attached_image_part"
    "attachment_filename attached_image_part = ''logo.png''"
    "mediaType attached_image_part = ''image/png''"
    "decodeContent rejecting_codecs ''PNGDATA'' (ent_encoding attached_image_part) = ''PNGDATA''"
    by (simp_all add: attached_image_part_def isAttachment_def attachment_filename_def
        disposition_def dispParams_def params_def mediaType_def lookup_def decodeContent_def
        rejecting_codecs_def Let_def)
  have a2: "isAttachment inline_image_part"
    "attachment_filename inline_image_part = ''banner.png''"
    "mediaType inline_image_part = ''image/png''"
    "decodeContent rejecting_codecs ''PNGDATA'' (ent_encoding inline_image_part) = ''PNGDATA''"
    by (simp_all add: inline_image_part_def isAttachment_def attachment_filename_def
        disposition_def dispParams_def params_def mediaType_def lookup_def decodeContent_def
        rejecting_codecs_def Let_def)
  have a3: "\<not> isAttachment image_part" "mediaType image_part = ''image/png''"
    by (simp_all add: image_part_def isAttachment_def disposition_def dispParams_def
        mediaType_def lookup_def)
  have w1: "parsePart rejecting_codecs attached_image_part sample_mail
       = Inr ([\<lparr>att_ID = 0, Filename = ''logo.png'', ContentType = ''image/png'', att_Size = 7,
                 Data = ''PNGDATA''\<rparr>], sample_mail)"
    using parsePart_classification[OF b1, of rejecting_codecs sample_mail] a1 by simp
  have w2: "parsePart rejecting_codecs inline_image_part sample_mail
       = Inr ([\<lparr>att_ID = 0, Filename = ''banner.png'', ContentType = ''image/png'', att_Size = 7,
                 Data = ''PNGDATA''\<rparr>], sample_mail)"
    using parsePart_classification[OF b2, of rejecting_codecs sample_mail] a2 by simp
  have w3: "parsePart rejecting_codecs image_part sample_mail = Inr ([], sample_mail)"
    using parsePart_classification[OF b3, of rejecting_codecs sample_mail] a3 by simp
  from b1 w1 w2 w3 show ?thesis by blast
qed


section \<open>Publishing through the hub\<close>

lemma deliver_result:
  assumes "distinct cs" and "\<forall>c \<in> set cs. \<not> closed (send h c)"
  shows "deliver message cs h =
     Returns (h\<lparr>send := (\<lambda>c. if c \<in> set cs
                              then (if length (buf (send h c)) < chan_cap
                                    then (send h c)\<lparr>buf := buf (send h c) @ [message]\<rparr>
                                    else (send h c)\<lparr>closed := True\<rparr>)
                              else send h c),
               clients := filter (\<lambda>c. c \<notin> set cs \<or> length (buf (send h c)) < chan_cap) (clients h)\<rparr>)"
  using assms
proof (induction cs arbitrary: h)
  case Nil
  then show ?case by simp
next
  case (Cons c cs)
  have open_c: "\<not> closed (send h c)" using Cons.prems by simp
  have c_new: "c \<notin> set cs" and d: "distinct cs" using Cons.prems by simp_all
  show ?case
  proof (cases "length (buf (send h c)) < chan_cap")
    case True
    let ?h1 = "h\<lparr>send := (send h)(c := (send h c)\<lparr>buf := buf (send h c) @ [message]\<rparr>)\<rparr>"
    have o1: "\<forall>x \<in> set cs. \<not> closed (send ?h1 x)" using Cons.prems by simp
    have step: "deliver message (c # cs) h = deliver message cs ?h1"
      using True open_c by (simp add: chan_send_def)
    have s: "(\<lambda>x. if x \<in> set cs
                then (if length (buf (send ?h1 x)) < chan_cap
                      then (send ?h1 x)\<lparr>buf := buf (send ?h1 x) @ [message]\<rparr>
                      else (send ?h1 x)\<lparr>closed := True\<rparr>)
                else send ?h1 x)
           = (\<lambda>x. if x \<in> set (c # cs)
                then (if length (buf (send h x)) < chan_cap
                      then (send h x)\<lparr>buf := buf (send h x) @ [message]\<rparr>
                      else (send h x)\<lparr>closed := True\<rparr>)
                else send h x)"
      using True c_new by (auto simp: fun_eq_iff)
    have f: "filter (\<lambda>x. x \<notin> set cs \<or> length (buf (send ?h1 x)) < chan_cap) (clients ?h1)
           = filter (\<lambda>x. x \<notin> set (c # cs) \<or> length (buf (send h x)) < chan_cap) (clients h)"
      using True c_new by (auto intro!: filter_cong)
    show ?thesis
      unfolding step Cons.IH[OF d o1] s f by simp
  next
    case False
    let ?h1 = "h\<lparr>send := (send h)(c := (send h c)\<lparr>closed := True\<rparr>),
                  clients := removeAll c (clients h)\<rparr>"
    have o1: "\<forall>x \<in> set cs. \<not> closed (send ?h1 x)" using Cons.prems by auto
    have step: "deliver message (c # cs) h = deliver message cs ?h1"
      using False open_c by (simp add: chan_send_def chan_close_def)
    have s: "(\<lambda>x. if x \<in> set cs
                then (if length (buf (send ?h1 x)) < chan_cap
                      then (send ?h1 x)\<lparr>buf := buf (send ?h1 x) @ [message]\<rparr>
                      else (send ?h1 x)\<lparr>closed := True\<rparr>)
                else send ?h1 x)
           = (\<lambda>x. if x \<in> set (c # cs)
                then (if length (buf (send h x)) < chan_cap
                      then (send h x)\<lparr>buf := buf (send h x) @ [message]\<rparr>
                      else (send h x)\<lparr>closed := True\<rparr>)
                else send h x)"
      using False c_new by (auto simp: fun_eq_iff)
    have f: "filter (\<lambda>x. x \<notin> set cs \<or> length (buf (send ?h1 x)) < chan_cap) (clients ?h1)
           = filter (\<lambda>x. x \<notin> set (c # cs) \<or> length (buf (send h x)) < chan_cap) (clients h)"
      using False c_new by (auto simp: removeAll_filter_not_eq intro!: filter_cong)
    show ?thesis
      unfolding step Cons.IH[OF d o1] s f by simp
  qed
qed

lemma Run_broadcast_result:
  assumes "hub_inv h"
  shows "Run_broadcast h message =
     Returns (h\<lparr>send := (\<lambda>c. if c \<in> set (clients h)
                              then (if length (buf (send h c)) < chan_cap
                                    then (send h c)\<lparr>buf := buf (send h c) @ [message]\<rparr>
                                    else (send h c)\<lparr>closed := True\<rparr>)
                              else send h c),
               clients := filter (\<lambda>c. length (buf (send h c)) < chan_cap) (clients h)\<rparr>)"
proof -
  have d: "distinct (clients h)" and o: "\<forall>c \<in> set (clients h). \<not> closed (send h c)"
    using assms by (auto simp: hub_inv_def list_all_iff)
  have f: "filter (\<lambda>c. c \<notin> set (clients h) \<or> length (buf (send h c)) < chan_cap) (clients h)
         = filter (\<lambda>c. length (buf (send h c)) < chan_cap) (clients h)"
    by (rule filter_cong) auto
  show ?thesis
    unfolding Run_broadcast_def deliver_result[OF d o] f by simp
qed

lemma Broadcast_result:
  assumes "hub_inv h"
  shows "Broadcast h message =
     Returns (if length (buf (broadcast h)) < chan_cap
              then h\<lparr>broadcast := (broadcast h)\<lparr>buf := buf (broadcast h) @ [message]\<rparr>\<rparr>
              else h)"
  using assms by (simp add: Broadcast_def chan_send_def hub_inv_def)

lemma hub_inv_init: "hub_inv NewWebSocketHub"
  by (simp add: hub_inv_def NewWebSocketHub_def make_chan_def)

lemma hub_inv_serve:
  assumes "hub_inv h"
    and "Run_register (h\<lparr>next_client := Suc (next_client h)\<rparr>) (next_client h) = Returns h'"
  shows "hub_inv h'"
proof -
  have fresh: "next_client h \<notin> set (clients h)"
    using assms(1) by (auto simp: hub_inv_def list_all_iff)
  then have h': "h' = h\<lparr>next_client := Suc (next_client h), clients := clients h @ [next_client h]\<rparr>"
    using assms(2) by (simp add: Run_register_def)
  show ?thesis
    using assms(1) fresh unfolding h' by (auto simp: hub_inv_def list_all_iff)
qed

lemma hub_inv_unregister:
  assumes "hub_inv h" and "c < next_client h" and "Run_unregister h c = Returns h'"
  shows "hub_inv h'"
proof (cases "c \<in> set (clients h)")
  case True
  then have "\<not> closed (send h c)" using assms(1) by (auto simp: hub_inv_def list_all_iff)
  then have h': "h' = h\<lparr>clients := removeAll c (clients h),
                          send := (send h)(c := (send h c)\<lparr>closed := True\<rparr>)\<rparr>"
    using assms(3) True by (simp add: Run_unregister_def chan_close_def)
  show ?thesis
    using assms(1,2) unfolding h' by (auto simp: hub_inv_def list_all_iff distinct_removeAll)
next
  case False
  then show ?thesis using assms(1,3) by (simp add: Run_unregister_def)
qed

lemma hub_inv_publish:
  assumes "hub_inv h" and "Broadcast h message = Returns h'"
  shows "hub_inv h'"
  using assms unfolding Broadcast_result[OF assms(1)]
  by (auto simp: hub_inv_def split: if_splits)

lemma hub_inv_dispatch:
  assumes "hub_inv h"
    and "Run_broadcast (h\<lparr>broadcast := (broadcast h)\<lparr>buf := rest\<rparr>\<rparr>) message = Returns h'"
  shows "hub_inv h'"
proof -
  let ?h0 = "h\<lparr>broadcast := (broadcast h)\<lparr>buf := rest\<rparr>\<rparr>"
  let ?f = "\<lambda>c. if c \<in> set (clients h)
                 then (if length (buf (send h c)) < chan_cap
                       then (send h c)\<lparr>buf := buf (send h c) @ [message]\<rparr>
                       else (send h c)\<lparr>closed := True\<rparr>)
                 else send h c"
  have i0: "hub_inv ?h0" using assms(1) by (simp add: hub_inv_def)
  have d: "distinct (clients h)"
    and reg: "\<And>c. c \<in> set (clients h) \<Longrightarrow> c < next_client h \<and> \<not> closed (send h c)"
    and b: "\<not> closed (broadcast h)"
    and fresh: "\<And>c. next_client h \<le> c \<Longrightarrow> \<not> closed (send h c)"
    using assms(1) by (auto simp: hub_inv_def list_all_iff)
  have h': "h' = ?h0\<lparr>send := ?f,
                      clients := filter (\<lambda>c. length (buf (send h c)) < chan_cap) (clients h)\<rparr>"
  proof -
    have "Returns h' = Run_broadcast ?h0 message" using assms(2) by simp
    then show ?thesis unfolding Run_broadcast_result[OF i0] by (simp cong: if_cong)
  qed
  have c1: "distinct (clients h')" using d by (simp add: h')
  have c2: "list_all (\<lambda>c. c < next_client h' \<and> \<not> closed (send h' c)) (clients h')"
    using reg by (simp add: h' list_all_iff)
  have c3: "\<not> closed (broadcast h')" using b by (simp add: h')
  have c4: "\<forall>c. next_client h' \<le> c \<longrightarrow> \<not> closed (send h' c)"
  proof (intro allI impI)
    fix c assume "next_client h' \<le> c"
    then have n: "next_client h \<le> c" by (simp add: h')
    then have "c \<notin> set (clients h)" using reg[of c] by auto
    then show "\<not> closed (send h' c)" using fresh[OF n] by (simp add: h')
  qed
  from c1 c2 c3 c4 show ?thesis by (simp add: hub_inv_def)
qed

lemma hub_inv_drain:
  assumes "hub_inv h"
  shows "hub_inv (h\<lparr>send := (send h)(c := (send h c)\<lparr>buf := rest\<rparr>)\<rparr>)"
  using assms by (auto simp: hub_inv_def list_all_iff)

lemma hub_inv_shutdown: "hub_inv h \<Longrightarrow> hub_inv (Shutdown h)"
  by (simp add: hub_inv_def Shutdown_def)

lemma reachable_inv: "reachable h \<Longrightarrow> hub_inv h"
proof (induction rule: reachable.induct)
  case init
  show ?case by (rule hub_inv_init)
next
  case (serve h h')
  then show ?case using hub_inv_serve by blast
next
  case (unregister h c h')
  then show ?case using hub_inv_unregister by blast
next
  case (publish h message h')
  then show ?case using hub_inv_publish by blast
next
  case (dispatch h message rest h')
  then show ?case using hub_inv_dispatch by blast
next
  case (drain h c message rest)
  then show ?case using hub_inv_drain by blast
next
  case (shutdown h)
  then show ?case using hub_inv_shutdown by blast
qed

text \<open>
  C7. In every reachable state of the hub, \<open>Broadcast\<close> returns (it never blocks and
  never panics), and delivering a message returns as well: every registered client whose
  channel has room gets the message at the end of its queue and stays registered; every
  registered client whose channel is full has its channel closed and is removed from
  the client set, its queue untouched; nothing else changes.
\<close>

theorem publish_never_blocks:
  assumes "reachable h"
  shows "(\<exists>h'. Broadcast h message = Returns h')
    \<and> (\<exists>h'. Run_broadcast h message = Returns h'
          \<and> clients h' = filter (\<lambda>c. length (buf (send h c)) < chan_cap) (clients h)
          \<and> (\<forall>c \<in> set (clients h). length (buf (send h c)) < chan_cap
                \<longrightarrow> c \<in> set (clients h') \<and> \<not> closed (send h' c)
                    \<and> buf (send h' c) = buf (send h c) @ [message])
          \<and> (\<forall>c \<in> set (clients h). \<not> length (buf (send h c)) < chan_cap
                \<longrightarrow> c \<notin> set (clients h') \<and> closed (send h' c)
                    \<and> buf (send h' c) = buf (send h c))
          \<and> (\<forall>c. c \<notin> set (clients h) \<longrightarrow> send h' c = send h c)
          \<and> broadcast h' = broadcast h)"
proof -
  have inv: "hub_inv h" using assms by (rule reachable_inv)
  have a: "\<exists>h'. Broadcast h message = Returns h'"
    unfolding Broadcast_result[OF inv] by blast
  have b: "\<exists>h'. Run_broadcast h message = Returns h'
          \<and> clients h' = filter (\<lambda>c. length (buf (send h c)) < chan_cap) (clients h)
          \<and> (\<forall>c \<in> set (clients h). length (buf (send h c)) < chan_cap
                \<longrightarrow> c \<in> set (clients h') \<and> \<not> closed (send h' c)
                    \<and> buf (send h' c) = buf (send h c) @ [message])
          \<and> (\<forall>c \<in> set (clients h). \<not> length (buf (send h c)) < chan_cap
                \<longrightarrow> c \<notin> set (clients h') \<and> closed (send h' c)
                    \<and> buf (send h' c) = buf (send h c))
          \<and> (\<forall>c. c \<notin> set (clients h) \<longrightarrow> send h' c = send h c)
          \<and> broadcast h' = broadcast h"
    using inv unfolding Run_broadcast_result[OF inv]
    by (auto simp: hub_inv_def list_all_iff)
  from a b show ?thesis by blast
qed

lemma reachable_hub_two_0: "reachable (hub_two 0)"
proof -
  let ?h1 = "\<lparr>clients = [0], broadcast = make_chan, send = (\<lambda>c. make_chan), next_client = 1\<rparr>"
  have "Run_register (NewWebSocketHub\<lparr>next_client := Suc (next_client NewWebSocketHub)\<rparr>)
          (next_client NewWebSocketHub) = Returns ?h1"
    by (simp add: Run_register_def NewWebSocketHub_def)
  then have r1: "reachable ?h1" using reachable.init reachable.serve by blast
  have "Run_register (?h1\<lparr>next_client := Suc (next_client ?h1)\<rparr>) (next_client ?h1)
          = Returns (hub_two 0)"
    by (simp add: Run_register_def hub_two_def make_chan_def fun_eq_iff)
  then show ?thesis using r1 reachable.serve by blast
qed

lemma reachable_hub_two_step:
  assumes r: "reachable (hub_two n)" and n: "n < chan_cap"
  shows "reachable (hub_two (Suc n))"
proof -
  let ?q = "\<lparr>buf = replicate n sample_event, closed = False\<rparr>"
  let ?h1 = "(hub_two n)\<lparr>broadcast := \<lparr>buf = [sample_event], closed = False\<rparr>\<rparr>"
  have "Broadcast (hub_two n) sample_event = Returns ?h1"
    by (simp add: Broadcast_def chan_send_def hub_two_def make_chan_def chan_cap_def)
  then have r1: "reachable ?h1" using r reachable.publish by blast
  let ?h2 = "\<lparr>clients = [0, 1], broadcast = make_chan,
             send = (\<lambda>c. make_chan)
                      (0 := \<lparr>buf = replicate n sample_event @ [sample_event], closed = False\<rparr>,
                       1 := \<lparr>buf = [sample_event], closed = False\<rparr>),
             next_client = 2\<rparr>"
  have b1: "buf (broadcast ?h1) = sample_event # []" by simp
  have "Run_broadcast (?h1\<lparr>broadcast := (broadcast ?h1)\<lparr>buf := []\<rparr>\<rparr>) sample_event = Returns ?h2"
    using n by (simp add: Run_broadcast_def chan_send_def hub_two_def make_chan_def fun_upd_twist)
  then have r2: "reachable ?h2" using reachable.dispatch[OF r1 b1] by blast
  have b2: "buf (send ?h2 1) = sample_event # []" by simp
  have "?h2\<lparr>send := (send ?h2)(1 := (send ?h2 1)\<lparr>buf := []\<rparr>)\<rparr> = hub_two (Suc n)"
    by (simp add: hub_two_def make_chan_def fun_eq_iff replicate_append_same)
  then show ?thesis using reachable.drain[OF r2 b2] by simp
qed

lemma reachable_hub_two: "n \<le> chan_cap \<Longrightarrow> reachable (hub_two n)"
proof (induction n)
  case 0
  show ?case by (rule reachable_hub_two_0)
next
  case (Suc n)
  then show ?case using reachable_hub_two_step[of n] by simp
qed

theorem publish_never_blocks_witness:
  "reachable (hub_two chan_cap)
   \<and> Broadcast (hub_two chan_cap) sample_event
       = Returns ((hub_two chan_cap)\<lparr>broadcast := \<lparr>buf = [sample_event], closed = False\<rparr>\<rparr>)
   \<and> (\<exists>h'. Run_broadcast (hub_two chan_cap) sample_event = Returns h'
          \<and> clients h' = [1] \<and> closed (send h' 0)
          \<and> \<not> closed (send h' 1) \<and> buf (send h' 1) = [sample_event])"
proof -
  have r: "reachable (hub_two chan_cap)" by (rule reachable_hub_two) simp
  have full: "\<not> length (buf (send (hub_two chan_cap) 0)) < chan_cap"
    and room: "length (buf (send (hub_two chan_cap) 1)) < chan_cap"
    and q1: "buf (send (hub_two chan_cap) 1) = []"
    and cl: "clients (hub_two chan_cap) = [0, 1]"
    by (simp_all add: hub_two_def make_chan_def chan_cap_def)
  from publish_never_blocks[OF r, of sample_event]
  obtain h' where h': "Run_broadcast (hub_two chan_cap) sample_event = Returns h'"
    and c: "clients h' = filter (\<lambda>c. length (buf (send (hub_two chan_cap) c)) < chan_cap)
                          (clients (hub_two chan_cap))"
    and ok: "\<forall>c \<in> set (clients (hub_two chan_cap)).
               length (buf (send (hub_two chan_cap) c)) < chan_cap
               \<longrightarrow> c \<in> set (clients h') \<and> \<not> closed (send h' c)
                   \<and> buf (send h' c) = buf (send (hub_two chan_cap) c) @ [sample_event]"
    and over: "\<forall>c \<in> set (clients (hub_two chan_cap)).
               \<not> length (buf (send (hub_two chan_cap) c)) < chan_cap
               \<longrightarrow> c \<notin> set (clients h') \<and> closed (send h' c)
                   \<and> buf (send h' c) = buf (send (hub_two chan_cap) c)"
    by blast
  have c': "clients h' = [1]" using c full room by (simp add: cl)
  have o0: "closed (send h' 0)" using over full by (simp add: cl)
  have o1: "\<not> closed (send h' 1) \<and> buf (send h' 1) = [sample_event]"
    using ok room q1 by (simp add: cl)
  have b: "Broadcast (hub_two chan_cap) sample_event
       = Returns ((hub_two chan_cap)\<lparr>broadcast := \<lparr>buf = [sample_event], closed = False\<rparr>\<rparr>)"
    by (simp add: Broadcast_def chan_send_def hub_two_def make_chan_def chan_cap_def)
  from r b h' c' o0 o1 show ?thesis by blast
qed


end
